theory Spec2Isabelle
  imports Complex_Main
begin

section \<open>Python values, keyword mappings and exceptions\<close>

text \<open>
  The hyperparameter values the two wrappers handle are Python scalars. The defaults of
  \<^verbatim>\<open>LightGBM.__init__\<close> and \<^verbatim>\<open>SVMModel.__init__\<close> use integers, floats (read here as
  the reals they denote), strings and booleans.
\<close>

datatype pyval = PNone | PBool bool | PInt int | PFloat real | PStr string

text \<open>
  A keyword mapping such as \<^verbatim>\<open>**lgbm_params\<close>: a Python dict in insertion order. The names
  of a dict are distinct, and a mapping collected by \<^verbatim>\<open>**\<close> never holds the name of a formal
  parameter of the call (\<^verbatim>\<open>self\<close>, \<^verbatim>\<open>task\<close>).
\<close>

type_synonym kwargs = "(string \<times> pyval) list"

definition keys :: "kwargs \<Rightarrow> string list" where
  "keys kw = map fst kw"

text \<open>The exception classes that the wrappers raise or let through.\<close>

datatype error = ValueError | TypeError | AttributeError | OtherError

text \<open>
  A character of a HOL string stands for the Unicode code point of the same number, U+0000
  to U+00FF; text with a code point from U+0100 on is outside the string type. On these
  code points \<^verbatim>\<open>str.lower\<close> works character by character: the letters A to Z (65 to 90) and
  the capital letters U+00C0 to U+00DE other than the multiplication sign U+00D7 (215) move
  up by 32, every other character stays. A value that is not a string has no attribute
  \<^verbatim>\<open>lower\<close>.
\<close>

definition char_lower :: "char \<Rightarrow> char" where
  "char_lower c =
     (if 65 \<le> (of_char c :: nat) \<and> (of_char c :: nat) \<le> 90
      then char_of ((of_char c :: nat) + 32)
      else if 192 \<le> (of_char c :: nat) \<and> (of_char c :: nat) \<le> 214
      then char_of ((of_char c :: nat) + 32)
      else if 216 \<le> (of_char c :: nat) \<and> (of_char c :: nat) \<le> 222
      then char_of ((of_char c :: nat) + 32)
      else c)"

definition lower :: "string \<Rightarrow> string" where
  "lower s = map char_lower s"

fun task_lower :: "pyval \<Rightarrow> error + string" where
  "task_lower (PStr s) = Inr (lower s)"
| "task_lower PNone = Inl AttributeError"
| "task_lower (PBool b) = Inl AttributeError"
| "task_lower (PInt i) = Inl AttributeError"
| "task_lower (PFloat r) = Inl AttributeError"

section \<open>The delegated libraries\<close>

text \<open>
  The estimators of lightgbm and scikit-learn are outside the repository. They enter the
  model as a parameter: a record of the operations the wrappers call on them, over an
  opaque type \<open>'m\<close> of estimator objects and an opaque type \<open>'x\<close> of feature matrices.
  Targets and predictions are numeric arrays. Every operation may raise.
\<close>

datatype kind = LGBMClassifier | LGBMRegressor | SVC | SVR

type_synonym 'x fit_kwargs = "(('x \<times> real list) list \<times> int \<times> bool) option"

record ('m, 'x) library =
  new_estimator :: "kind \<Rightarrow> kwargs \<Rightarrow> error + 'm"
  est_fit :: "'m \<Rightarrow> 'x \<Rightarrow> real list \<Rightarrow> 'x fit_kwargs \<Rightarrow> error + 'm"
  est_predict :: "'m \<Rightarrow> 'x \<Rightarrow> error + real list"
  est_has_predict_proba :: "'m \<Rightarrow> bool"
  est_predict_proba :: "'m \<Rightarrow> 'x \<Rightarrow> error + real list list"

text \<open>
  A call \<^verbatim>\<open>f(k1=v1, ..., **kw)\<close>: Python raises \<^verbatim>\<open>TypeError\<close> (multiple values for a keyword
  argument) when \<^verbatim>\<open>kw\<close> holds one of the names written out in the call, before \<^verbatim>\<open>f\<close> runs;
  otherwise \<^verbatim>\<open>f\<close> receives all of them.
\<close>

definition call_kw :: "(kwargs \<Rightarrow> error + 'a) \<Rightarrow> kwargs \<Rightarrow> kwargs \<Rightarrow> error + 'a" where
  "call_kw f explicit kw =
     (if list_ex (\<lambda>k. k \<in> set (keys explicit)) (keys kw) then Inl TypeError
      else f (explicit @ kw))"

text \<open>\<^verbatim>\<open>d[k] = v\<close> on a dict: an existing name keeps its place, a new one goes last.\<close>

fun dict_set :: "string \<Rightarrow> pyval \<Rightarrow> kwargs \<Rightarrow> kwargs" where
  "dict_set k v [] = [(k, v)]"
| "dict_set k v (p # ps) = (if fst p = k then (k, v) # ps else p # dict_set k v ps)"

text \<open>The dict display \<^verbatim>\<open>{k: v, **d}\<close>: the entries of \<^verbatim>\<open>d\<close> are stored one by one.\<close>

definition dict_display :: "string \<Rightarrow> pyval \<Rightarrow> kwargs \<Rightarrow> kwargs" where
  "dict_display k v d = fold (\<lambda>p acc. dict_set (fst p) (snd p) acc) d [(k, v)]"

text \<open>
  Modelled from the spec: \<^verbatim>\<open>accuracy_score\<close> and \<^verbatim>\<open>mean_squared_error\<close>, the two metrics
  that \<^verbatim>\<open>evaluate\<close> imports from \<^verbatim>\<open>sklearn.metrics\<close>; the library is not part of the
  repository. They are taken by their meaning and in exact arithmetic: the fraction of
  positions where prediction and label agree, and the mean of the squared differences.
  Arrays of different lengths are rejected with \<^verbatim>\<open>ValueError\<close>; no value is given here for
  empty arrays.
\<close>

definition accuracy_score :: "real list \<Rightarrow> real list \<Rightarrow> error + real" where
  "accuracy_score y_true y_pred =
     (if length y_true = length y_pred then
        (if y_true = [] then Inl ValueError
         else Inr (real (length (filter (\<lambda>p. fst p = snd p) (zip y_true y_pred)))
                   / real (length y_true)))
      else Inl ValueError)"

definition mean_squared_error :: "real list \<Rightarrow> real list \<Rightarrow> error + real" where
  "mean_squared_error y_true y_pred =
     (if length y_true = length y_pred then
        (if y_true = [] then Inl ValueError
         else Inr (sum_list (map (\<lambda>p. (fst p - snd p) ^ 2) (zip y_true y_pred))
                   / real (length y_true)))
      else Inl ValueError)"

text \<open>
  \<^verbatim>\<open>m.predict_proba(X)\<close> on a delegate: looking up a method the object does not have
  raises \<^verbatim>\<open>AttributeError\<close>.
\<close>

definition delegate_predict_proba ::
  "('m, 'x) library \<Rightarrow> 'm \<Rightarrow> 'x \<Rightarrow> error + real list list" where
  "delegate_predict_proba lib m X =
     (if est_has_predict_proba lib m then est_predict_proba lib m X else Inl AttributeError)"

section \<open>The wrapper object\<close>

text \<open>
  The attributes of a wrapper instance: \<^verbatim>\<open>self.task\<close>, \<^verbatim>\<open>self.lgbm_params\<close> (in
  \<^verbatim>\<open>SVMModel\<close>: \<^verbatim>\<open>self.svm_params\<close>) and \<^verbatim>\<open>self.model\<close>. \<^verbatim>\<open>set_params\<close> stores whatever
  value it is given in \<^verbatim>\<open>self.task\<close>, so the field is a Python value. \<open>model = None\<close> is an
  object whose \<^verbatim>\<open>model\<close> attribute has not been assigned yet.
\<close>

record 'm adapter =
  task :: pyval
  params :: kwargs
  model :: "'m option"

text \<open>The object \<^verbatim>\<open>__init__\<close> receives from \<^verbatim>\<open>__new__\<close>; no caller ever sees it.\<close>

definition blank :: "'m adapter" where
  "blank = \<lparr>task = PNone, params = [], model = None\<rparr>"

section \<open>LightGBM.py\<close>

definition lgbm_defaults :: kwargs where
  "lgbm_defaults =
     [(''n_estimators'', PInt 100), (''learning_rate'', PFloat 0.1),
      (''max_depth'', PInt (- 1)), (''num_leaves'', PInt 31),
      (''boosting_type'', PStr ''gbdt''), (''subsample'', PFloat 0.8),
      (''colsample_bytree'', PFloat 0.8), (''random_state'', PInt 42)]"

text \<open>
  \<^verbatim>\<open>LightGBM.__init__(self, task, **lgbm_params)\<close>. The result is the exception raised, if
  any, and the object as the call leaves it.
\<close>

definition LightGBM_init ::
  "('m, 'x) library \<Rightarrow> pyval \<Rightarrow> kwargs \<Rightarrow> 'm adapter \<Rightarrow> error option \<times> 'm adapter" where
  "LightGBM_init lib tsk lgbm_params self =
     (case task_lower tsk of
        Inl e \<Rightarrow> (Some e, self)
      | Inr t \<Rightarrow>
          let self1 = self\<lparr>task := PStr t, params := lgbm_params\<rparr> in
          if task self1 = PStr ''classification'' then
            (case call_kw (new_estimator lib LGBMClassifier) lgbm_defaults (params self1) of
               Inl e \<Rightarrow> (Some e, self1)
             | Inr m \<Rightarrow> (None, self1\<lparr>model := Some m\<rparr>))
          else if task self1 = PStr ''regression'' then
            (case call_kw (new_estimator lib LGBMRegressor) lgbm_defaults (params self1) of
               Inl e \<Rightarrow> (Some e, self1)
             | Inr m \<Rightarrow> (None, self1\<lparr>model := Some m\<rparr>))
          else (Some ValueError, self1))"

text \<open>
  \<^verbatim>\<open>LightGBM(task=tsk, **lgbm_params)\<close>: an exception in \<^verbatim>\<open>__init__\<close> leaves the caller
  without an object.
\<close>

definition LightGBM_construct ::
  "('m, 'x) library \<Rightarrow> pyval \<Rightarrow> kwargs \<Rightarrow> error + 'm adapter" where
  "LightGBM_construct lib tsk lgbm_params =
     (case LightGBM_init lib tsk lgbm_params blank of
        (Some e, self) \<Rightarrow> Inl e
      | (None, self) \<Rightarrow> Inr self)"

text \<open>
  \<^verbatim>\<open>LightGBM(**d)\<close>: the entry \<^verbatim>\<open>task\<close> of the mapping, if any, is bound to the formal
  parameter (whose default is \<^verbatim>\<open>"classification"\<close>); the other entries are collected in
  \<^verbatim>\<open>lgbm_params\<close>.
\<close>

definition LightGBM_construct_kw :: "('m, 'x) library \<Rightarrow> kwargs \<Rightarrow> error + 'm adapter" where
  "LightGBM_construct_kw lib d =
     LightGBM_construct lib
       (case map_of d ''task'' of Some t \<Rightarrow> t | None \<Rightarrow> PStr ''classification'')
       (filter (\<lambda>p. fst p \<noteq> ''task'') d)"

text \<open>
  \<^verbatim>\<open>LightGBM.fit\<close>. The test \<^verbatim>\<open>eval_set and early_stopping_rounds\<close> is Python truthiness:
  \<^verbatim>\<open>None\<close>, an empty list and \<^verbatim>\<open>0\<close> are false. The delegate is fitted in place; the result
  is the object with the fitted delegate, or the delegate's exception.
\<close>

definition LightGBM_fit ::
  "('m, 'x) library \<Rightarrow> 'm adapter \<Rightarrow> 'x \<Rightarrow> real list \<Rightarrow> ('x \<times> real list) list option
     \<Rightarrow> int option \<Rightarrow> error + 'm adapter" where
  "LightGBM_fit lib self X_train y_train eval_set early_stopping_rounds =
     (case model self of
        None \<Rightarrow> Inl AttributeError
      | Some m \<Rightarrow>
          (case (case (eval_set, early_stopping_rounds) of
                   (Some es, Some r) \<Rightarrow>
                     if es = [] then est_fit lib m X_train y_train None
                     else if r = 0 then est_fit lib m X_train y_train None
                     else est_fit lib m X_train y_train (Some (es, r, False))
                 | _ \<Rightarrow> est_fit lib m X_train y_train None) of
             Inl e \<Rightarrow> Inl e
           | Inr m' \<Rightarrow> Inr (self\<lparr>model := Some m'\<rparr>)))"

definition LightGBM_predict :: "('m, 'x) library \<Rightarrow> 'm adapter \<Rightarrow> 'x \<Rightarrow> error + real list" where
  "LightGBM_predict lib self X =
     (case model self of None \<Rightarrow> Inl AttributeError | Some m \<Rightarrow> est_predict lib m X)"

definition LightGBM_predict_proba ::
  "('m, 'x) library \<Rightarrow> 'm adapter \<Rightarrow> 'x \<Rightarrow> error + real list list" where
  "LightGBM_predict_proba lib self X =
     (if task self = PStr ''classification'' then
        (case model self of
           None \<Rightarrow> Inl AttributeError
         | Some m \<Rightarrow> delegate_predict_proba lib m X)
      else Inl AttributeError)"

text \<open>\<^verbatim>\<open>LightGBM.evaluate\<close>; when neither branch is taken the method returns \<^verbatim>\<open>None\<close>.\<close>

definition LightGBM_evaluate ::
  "('m, 'x) library \<Rightarrow> 'm adapter \<Rightarrow> 'x \<Rightarrow> real list \<Rightarrow> error + real option" where
  "LightGBM_evaluate lib self X_test y_test =
     (case LightGBM_predict lib self X_test of
        Inl e \<Rightarrow> Inl e
      | Inr y_pred \<Rightarrow>
          if task self = PStr ''classification'' then
            (case accuracy_score y_test y_pred of Inl e \<Rightarrow> Inl e | Inr v \<Rightarrow> Inr (Some v))
          else if task self = PStr ''regression'' then
            (case mean_squared_error y_test y_pred of Inl e \<Rightarrow> Inl e | Inr v \<Rightarrow> Inr (Some v))
          else Inr None)"

text \<open>The loop of \<^verbatim>\<open>set_params\<close> over \<^verbatim>\<open>params.items()\<close>, shared by both classes.\<close>

fun set_params_loop :: "kwargs \<Rightarrow> 'm adapter \<Rightarrow> 'm adapter" where
  "set_params_loop [] self = self"
| "set_params_loop (p # rest) self =
     set_params_loop rest
       (if fst p = ''task'' then self\<lparr>task := snd p\<rparr>
        else self\<lparr>params := dict_set (fst p) (snd p) (params self)\<rparr>)"

text \<open>
  \<^verbatim>\<open>LightGBM.set_params\<close>: the loop, then \<^verbatim>\<open>self.__init__(task=self.task, **self.lgbm_params)\<close>
  on the same object. The result is the exception raised, if any, and the object as the call
  leaves it (the object itself is what the method returns).
\<close>

definition LightGBM_set_params ::
  "('m, 'x) library \<Rightarrow> kwargs \<Rightarrow> 'm adapter \<Rightarrow> error option \<times> 'm adapter" where
  "LightGBM_set_params lib ps self =
     (let self1 = set_params_loop ps self
      in LightGBM_init lib (task self1) (params self1) self1)"

definition LightGBM_get_params :: "'m adapter \<Rightarrow> kwargs" where
  "LightGBM_get_params self = dict_display ''task'' (task self) (params self)"

section \<open>SVM.py\<close>

definition svc_defaults :: kwargs where
  "svc_defaults =
     [(''kernel'', PStr ''rbf''), (''C'', PFloat 1.0), (''gamma'', PStr ''scale''),
      (''probability'', PBool True), (''random_state'', PInt 42)]"

definition svr_defaults :: kwargs where
  "svr_defaults =
     [(''kernel'', PStr ''rbf''), (''C'', PFloat 1.0), (''gamma'', PStr ''scale''),
      (''epsilon'', PFloat 0.1)]"

text \<open>\<^verbatim>\<open>SVMModel.__init__(self, task, **svm_params)\<close>.\<close>

definition SVMModel_init ::
  "('m, 'x) library \<Rightarrow> pyval \<Rightarrow> kwargs \<Rightarrow> 'm adapter \<Rightarrow> error option \<times> 'm adapter" where
  "SVMModel_init lib tsk svm_params self =
     (case task_lower tsk of
        Inl e \<Rightarrow> (Some e, self)
      | Inr t \<Rightarrow>
          let self1 = self\<lparr>task := PStr t, params := svm_params\<rparr> in
          if task self1 = PStr ''classification'' then
            (case call_kw (new_estimator lib SVC) svc_defaults (params self1) of
               Inl e \<Rightarrow> (Some e, self1)
             | Inr m \<Rightarrow> (None, self1\<lparr>model := Some m\<rparr>))
          else if task self1 = PStr ''regression'' then
            (case call_kw (new_estimator lib SVR) svr_defaults (params self1) of
               Inl e \<Rightarrow> (Some e, self1)
             | Inr m \<Rightarrow> (None, self1\<lparr>model := Some m\<rparr>))
          else (Some ValueError, self1))"

definition SVMModel_construct ::
  "('m, 'x) library \<Rightarrow> pyval \<Rightarrow> kwargs \<Rightarrow> error + 'm adapter" where
  "SVMModel_construct lib tsk svm_params =
     (case SVMModel_init lib tsk svm_params blank of
        (Some e, self) \<Rightarrow> Inl e
      | (None, self) \<Rightarrow> Inr self)"

definition SVMModel_construct_kw :: "('m, 'x) library \<Rightarrow> kwargs \<Rightarrow> error + 'm adapter" where
  "SVMModel_construct_kw lib d =
     SVMModel_construct lib
       (case map_of d ''task'' of Some t \<Rightarrow> t | None \<Rightarrow> PStr ''classification'')
       (filter (\<lambda>p. fst p \<noteq> ''task'') d)"

text \<open>\<^verbatim>\<open>SVMModel.fit(self, X_train, y_train)\<close>.\<close>

definition SVMModel_fit ::
  "('m, 'x) library \<Rightarrow> 'm adapter \<Rightarrow> 'x \<Rightarrow> real list \<Rightarrow> error + 'm adapter" where
  "SVMModel_fit lib self X_train y_train =
     (case model self of
        None \<Rightarrow> Inl AttributeError
      | Some m \<Rightarrow>
          (case est_fit lib m X_train y_train None of
             Inl e \<Rightarrow> Inl e
           | Inr m' \<Rightarrow> Inr (self\<lparr>model := Some m'\<rparr>)))"

text \<open>
  A call \<^verbatim>\<open>svm.fit(X, y, **extra)\<close>: the signature has no formal parameter besides
  \<^verbatim>\<open>X_train\<close> and \<^verbatim>\<open>y_train\<close> and no \<^verbatim>\<open>**\<close> collector, so Python raises \<^verbatim>\<open>TypeError\<close> for any
  further keyword before the body runs. \<open>extra\<close> lists the names of the further keywords.
\<close>

definition SVMModel_fit_call ::
  "('m, 'x) library \<Rightarrow> 'm adapter \<Rightarrow> 'x \<Rightarrow> real list \<Rightarrow> string list \<Rightarrow> error + 'm adapter" where
  "SVMModel_fit_call lib self X_train y_train extra =
     (if extra = [] then SVMModel_fit lib self X_train y_train else Inl TypeError)"

definition SVMModel_predict :: "('m, 'x) library \<Rightarrow> 'm adapter \<Rightarrow> 'x \<Rightarrow> error + real list" where
  "SVMModel_predict lib self X =
     (case model self of None \<Rightarrow> Inl AttributeError | Some m \<Rightarrow> est_predict lib m X)"

text \<open>
  \<^verbatim>\<open>SVMModel.predict_proba\<close>: \<^verbatim>\<open>and\<close> evaluates \<^verbatim>\<open>hasattr(self.model, "predict_proba")\<close>
  only when the task is classification.
\<close>

definition SVMModel_predict_proba ::
  "('m, 'x) library \<Rightarrow> 'm adapter \<Rightarrow> 'x \<Rightarrow> error + real list list" where
  "SVMModel_predict_proba lib self X =
     (if task self = PStr ''classification'' then
        (case model self of
           None \<Rightarrow> Inl AttributeError
         | Some m \<Rightarrow>
             if est_has_predict_proba lib m then delegate_predict_proba lib m X
             else Inl AttributeError)
      else Inl AttributeError)"

definition SVMModel_evaluate ::
  "('m, 'x) library \<Rightarrow> 'm adapter \<Rightarrow> 'x \<Rightarrow> real list \<Rightarrow> error + real option" where
  "SVMModel_evaluate lib self X_test y_test =
     (case SVMModel_predict lib self X_test of
        Inl e \<Rightarrow> Inl e
      | Inr y_pred \<Rightarrow>
          if task self = PStr ''classification'' then
            (case accuracy_score y_test y_pred of Inl e \<Rightarrow> Inl e | Inr v \<Rightarrow> Inr (Some v))
          else if task self = PStr ''regression'' then
            (case mean_squared_error y_test y_pred of Inl e \<Rightarrow> Inl e | Inr v \<Rightarrow> Inr (Some v))
          else Inr None)"

definition SVMModel_set_params ::
  "('m, 'x) library \<Rightarrow> kwargs \<Rightarrow> 'm adapter \<Rightarrow> error option \<times> 'm adapter" where
  "SVMModel_set_params lib ps self =
     (let self1 = set_params_loop ps self
      in SVMModel_init lib (task self1) (params self1) self1)"

definition SVMModel_get_params :: "'m adapter \<Rightarrow> kwargs" where
  "SVMModel_get_params self = dict_display ''task'' (task self) (params self)"

section \<open>A stand-in library for closed examples\<close>

text \<open>
  The general results hold for every library. The closed examples need one to compute
  with: an estimator that records its class, the keywords it was built with and the last
  \<^verbatim>\<open>fit\<close> call it received. Feature matrices are lists of one-feature rows, \<^verbatim>\<open>predict\<close> echoes
  the feature, and only the two classifiers have \<^verbatim>\<open>predict_proba\<close>.
\<close>

record recorder =
  rec_kind :: kind
  rec_config :: kwargs
  rec_fitted :: "(real list \<times> real list \<times> (real list) fit_kwargs) option"

definition recording_library :: "(recorder, real list) library" where
  "recording_library =
     \<lparr>new_estimator = (\<lambda>k kw. Inr \<lparr>rec_kind = k, rec_config = kw, rec_fitted = None\<rparr>),
      est_fit = (\<lambda>m X y opt. Inr (m\<lparr>rec_fitted := Some (X, y, opt)\<rparr>)),
      est_predict = (\<lambda>m X. Inr X),
      est_has_predict_proba =
        (\<lambda>m. case rec_kind m of LGBMClassifier \<Rightarrow> True | SVC \<Rightarrow> True
              | LGBMRegressor \<Rightarrow> False | SVR \<Rightarrow> False),
      est_predict_proba = (\<lambda>m X. Inr (map (\<lambda>x. [1 - x, x]) X))\<rparr>"

section \<open>Auxiliary facts\<close>

lemma lower_classification: "lower ''classification'' = ''classification''"
  by code_simp

lemma lower_regression: "lower ''regression'' = ''regression''"
  by code_simp

lemma dict_set_fresh: "k \<notin> set (keys d) \<Longrightarrow> dict_set k v d = d @ [(k, v)]"
  by (induction d) (auto simp add: keys_def)

lemma fold_dict_set_fresh:
  "distinct (keys (acc @ d)) \<Longrightarrow>
   fold (\<lambda>p a. dict_set (fst p) (snd p) a) d acc = acc @ d"
proof (induction d arbitrary: acc)
  case Nil
  then show ?case by simp
next
  case (Cons p d)
  have fresh: "fst p \<notin> set (keys acc)"
    using Cons.prems by (auto simp add: keys_def)
  have "distinct (keys ((acc @ [p]) @ d))"
    using Cons.prems by (simp add: keys_def)
  then have "fold (\<lambda>p a. dict_set (fst p) (snd p) a) d (acc @ [p]) = (acc @ [p]) @ d"
    by (rule Cons.IH)
  then show ?case
    using fresh by (simp add: dict_set_fresh)
qed

lemma dict_display_fresh:
  "distinct (keys d) \<Longrightarrow> k \<notin> set (keys d) \<Longrightarrow> dict_display k v d = (k, v) # d"
  using fold_dict_set_fresh [of "[(k, v)]" d] by (simp add: dict_display_def keys_def)

lemma filter_no_task: "''task'' \<notin> set (keys d) \<Longrightarrow> filter (\<lambda>p. fst p \<noteq> ''task'') d = d"
  by (induction d) (auto simp add: keys_def)

lemma loop_model: "model (set_params_loop ps self) = model self"
  by (induction ps arbitrary: self) auto

lemma loop_task_absent:
  "''task'' \<notin> set (keys ps) \<Longrightarrow> task (set_params_loop ps self) = task self"
  by (induction ps arbitrary: self) (auto simp add: keys_def)

lemma loop_task_present:
  "distinct (keys ps) \<Longrightarrow> map_of ps ''task'' = Some v \<Longrightarrow> task (set_params_loop ps self) = v"
proof (induction ps arbitrary: self)
  case Nil
  then show ?case by simp
next
  case (Cons p ps)
  show ?case
  proof (cases "fst p = ''task''")
    case True
    then have "snd p = v" using Cons.prems(2) by (cases p) simp
    moreover have "''task'' \<notin> set (keys ps)" using Cons.prems(1) True by (simp add: keys_def)
    ultimately show ?thesis using True by (simp add: loop_task_absent)
  next
    case False
    then have "map_of ps ''task'' = Some v" using Cons.prems(2) by (cases p) auto
    moreover have "distinct (keys ps)" using Cons.prems(1) by (simp add: keys_def)
    ultimately show ?thesis using False Cons.IH by simp
  qed
qed



lemma call_kw_Inr: "call_kw f ex kw = Inr m \<Longrightarrow> f (ex @ kw) = Inr m"
  by (cases "list_ex (\<lambda>k. k \<in> set (keys ex)) (keys kw)") (simp_all add: call_kw_def)

lemma LightGBM_init_ok:
  assumes "LightGBM_init lib tsk kw self = (None, a')"
  shows "\<exists>t m. task_lower tsk = Inr t
           \<and> (t = ''classification'' \<or> t = ''regression'')
           \<and> new_estimator lib (if t = ''classification'' then LGBMClassifier else LGBMRegressor)
                (lgbm_defaults @ kw) = Inr m
           \<and> a' = self\<lparr>task := PStr t, params := kw, model := Some m\<rparr>"
proof (cases "task_lower tsk")
  case (Inl e)
  then show ?thesis using assms by (simp add: LightGBM_init_def)
next
  case (Inr t)
  show ?thesis
  proof (cases "t = ''classification''")
    case True
    show ?thesis
    proof (cases "call_kw (new_estimator lib LGBMClassifier) lgbm_defaults kw")
      case (Inl e)
      then show ?thesis using assms Inr True by (simp add: LightGBM_init_def)
    next
      case (Inr m)
      then have "new_estimator lib LGBMClassifier (lgbm_defaults @ kw) = Inr m"
        by (rule call_kw_Inr)
      moreover have "a' = self\<lparr>task := PStr t, params := kw, model := Some m\<rparr>"
        using assms \<open>task_lower tsk = Inr t\<close> True Inr by (simp add: LightGBM_init_def)
      ultimately show ?thesis using \<open>task_lower tsk = Inr t\<close> True by simp
    qed
  next
    case False
    note notcls = False
    show ?thesis
    proof (cases "t = ''regression''")
      case False
      then show ?thesis using assms Inr notcls by (simp add: LightGBM_init_def)
    next
      case True
      show ?thesis
      proof (cases "call_kw (new_estimator lib LGBMRegressor) lgbm_defaults kw")
        case (Inl e)
        then show ?thesis using assms Inr True by (simp add: LightGBM_init_def)
      next
        case (Inr m)
        then have "new_estimator lib LGBMRegressor (lgbm_defaults @ kw) = Inr m"
          by (rule call_kw_Inr)
        moreover have "a' = self\<lparr>task := PStr t, params := kw, model := Some m\<rparr>"
          using assms \<open>task_lower tsk = Inr t\<close> True Inr by (simp add: LightGBM_init_def)
        ultimately show ?thesis using \<open>task_lower tsk = Inr t\<close> True by simp
      qed
    qed
  qed
qed


lemma SVMModel_init_ok:
  assumes "SVMModel_init lib tsk kw self = (None, a')"
  shows "\<exists>t m. task_lower tsk = Inr t
           \<and> (t = ''classification'' \<or> t = ''regression'')
           \<and> new_estimator lib (if t = ''classification'' then SVC else SVR)
                ((if t = ''classification'' then svc_defaults else svr_defaults) @ kw) = Inr m
           \<and> a' = self\<lparr>task := PStr t, params := kw, model := Some m\<rparr>"
proof (cases "task_lower tsk")
  case (Inl e)
  then show ?thesis using assms by (simp add: SVMModel_init_def)
next
  case (Inr t)
  show ?thesis
  proof (cases "t = ''classification''")
    case True
    show ?thesis
    proof (cases "call_kw (new_estimator lib SVC) svc_defaults kw")
      case (Inl e)
      then show ?thesis using assms Inr True by (simp add: SVMModel_init_def)
    next
      case (Inr m)
      then have "new_estimator lib SVC (svc_defaults @ kw) = Inr m"
        by (rule call_kw_Inr)
      moreover have "a' = self\<lparr>task := PStr t, params := kw, model := Some m\<rparr>"
        using assms \<open>task_lower tsk = Inr t\<close> True Inr by (simp add: SVMModel_init_def)
      ultimately show ?thesis using \<open>task_lower tsk = Inr t\<close> True by simp
    qed
  next
    case False
    note notcls = False
    show ?thesis
    proof (cases "t = ''regression''")
      case False
      then show ?thesis using assms Inr notcls by (simp add: SVMModel_init_def)
    next
      case True
      show ?thesis
      proof (cases "call_kw (new_estimator lib SVR) svr_defaults kw")
        case (Inl e)
        then show ?thesis using assms Inr True by (simp add: SVMModel_init_def)
      next
        case (Inr m)
        then have "new_estimator lib SVR (svr_defaults @ kw) = Inr m"
          by (rule call_kw_Inr)
        moreover have "a' = self\<lparr>task := PStr t, params := kw, model := Some m\<rparr>"
          using assms \<open>task_lower tsk = Inr t\<close> True Inr by (simp add: SVMModel_init_def)
        ultimately show ?thesis using \<open>task_lower tsk = Inr t\<close> True by simp
      qed
    qed
  qed
qed


lemma LightGBM_init_invalid:
  assumes "lower s \<noteq> ''classification''" and "lower s \<noteq> ''regression''"
  shows "LightGBM_init lib (PStr s) kw self = (Some ValueError, self\<lparr>task := PStr (lower s), params := kw\<rparr>)"
  using assms by (simp add: LightGBM_init_def)

lemma SVMModel_init_invalid:
  assumes "lower s \<noteq> ''classification''" and "lower s \<noteq> ''regression''"
  shows "SVMModel_init lib (PStr s) kw self = (Some ValueError, self\<lparr>task := PStr (lower s), params := kw\<rparr>)"
  using assms by (simp add: SVMModel_init_def)


lemma lower_Classification: "lower ''Classification'' = ''classification''"
  by code_simp

lemma lower_invalid: "lower ''invalid'' = ''invalid''"
  by code_simp

lemma lower_INVALID: "lower ''INVALID'' = ''invalid''"
  by code_simp

lemma LightGBM_init_str:
  "LightGBM_init lib (PStr s) kw self =
     (if lower s = ''classification'' then
        (case call_kw (new_estimator lib LGBMClassifier) lgbm_defaults kw of
           Inl e \<Rightarrow> (Some e, self\<lparr>task := PStr (lower s), params := kw\<rparr>)
         | Inr m \<Rightarrow> (None, self\<lparr>task := PStr (lower s), params := kw, model := Some m\<rparr>))
      else if lower s = ''regression'' then
        (case call_kw (new_estimator lib LGBMRegressor) lgbm_defaults kw of
           Inl e \<Rightarrow> (Some e, self\<lparr>task := PStr (lower s), params := kw\<rparr>)
         | Inr m \<Rightarrow> (None, self\<lparr>task := PStr (lower s), params := kw, model := Some m\<rparr>))
      else (Some ValueError, self\<lparr>task := PStr (lower s), params := kw\<rparr>))"
  by (simp add: LightGBM_init_def Let_def)

lemma SVMModel_init_str:
  "SVMModel_init lib (PStr s) kw self =
     (if lower s = ''classification'' then
        (case call_kw (new_estimator lib SVC) svc_defaults kw of
           Inl e \<Rightarrow> (Some e, self\<lparr>task := PStr (lower s), params := kw\<rparr>)
         | Inr m \<Rightarrow> (None, self\<lparr>task := PStr (lower s), params := kw, model := Some m\<rparr>))
      else if lower s = ''regression'' then
        (case call_kw (new_estimator lib SVR) svr_defaults kw of
           Inl e \<Rightarrow> (Some e, self\<lparr>task := PStr (lower s), params := kw\<rparr>)
         | Inr m \<Rightarrow> (None, self\<lparr>task := PStr (lower s), params := kw, model := Some m\<rparr>))
      else (Some ValueError, self\<lparr>task := PStr (lower s), params := kw\<rparr>))"
  by (simp add: SVMModel_init_def Let_def)

lemma call_kw_clash: "list_ex (\<lambda>k. k \<in> set (keys ex)) (keys kw) \<Longrightarrow> call_kw f ex kw = Inl TypeError"
  by (simp add: call_kw_def)

lemma call_kw_empty: "call_kw f ex [] = f ex"
  by (simp add: call_kw_def keys_def)

lemma LightGBM_init_task:
  "task (snd (LightGBM_init lib (PStr s) kw self)) = PStr (lower s)"
  by (cases "call_kw (new_estimator lib LGBMClassifier) lgbm_defaults kw";
      cases "call_kw (new_estimator lib LGBMRegressor) lgbm_defaults kw")
     (simp_all add: LightGBM_init_str)

lemma SVMModel_init_task:
  "task (snd (SVMModel_init lib (PStr s) kw self)) = PStr (lower s)"
  by (cases "call_kw (new_estimator lib SVC) svc_defaults kw";
      cases "call_kw (new_estimator lib SVR) svr_defaults kw")
     (simp_all add: SVMModel_init_str)

lemma LightGBM_init_lowered:
  "task_lower tsk = Inr t \<Longrightarrow> lower t = t \<Longrightarrow>
   LightGBM_init lib (PStr t) kw self = LightGBM_init lib tsk kw self"
  by (simp add: LightGBM_init_def)

lemma SVMModel_init_lowered:
  "task_lower tsk = Inr t \<Longrightarrow> lower t = t \<Longrightarrow>
   SVMModel_init lib (PStr t) kw self = SVMModel_init lib tsk kw self"
  by (simp add: SVMModel_init_def)

lemma construct_Inr_LightGBM:
  "LightGBM_construct lib tsk kw = Inr a \<Longrightarrow> LightGBM_init lib tsk kw blank = (None, a)"
  by (cases "LightGBM_init lib tsk kw blank"; cases "fst (LightGBM_init lib tsk kw blank)")
     (simp_all add: LightGBM_construct_def)

lemma construct_Inr_SVMModel:
  "SVMModel_construct lib tsk kw = Inr a \<Longrightarrow> SVMModel_init lib tsk kw blank = (None, a)"
  by (cases "SVMModel_init lib tsk kw blank"; cases "fst (SVMModel_init lib tsk kw blank)")
     (simp_all add: SVMModel_construct_def)

lemma lower_Regression: "lower ''Regression'' = ''regression''"
  by code_simp



lemma map_sum_id_case:
  "map_sum id f r = (case r of Inl e \<Rightarrow> Inl e | Inr v \<Rightarrow> Inr (f v))"
  by (cases r) simp_all

lemma accuracy_fraction_bounds:
  assumes "length y_pred = length y" and "y \<noteq> []"
  shows "0 \<le> real (length (filter P (zip y y_pred))) / real (length y)"
    and "real (length (filter P (zip y y_pred))) / real (length y) \<le> 1"
proof -
  have pos: "0 < length y" using assms(2) by simp
  have "length (filter P (zip y y_pred)) \<le> length (zip y y_pred)"
    by (rule length_filter_le)
  then have le: "length (filter P (zip y y_pred)) \<le> length y"
    using assms(1) by simp
  show "0 \<le> real (length (filter P (zip y y_pred))) / real (length y)"
    by simp
  show "real (length (filter P (zip y y_pred))) / real (length y) \<le> 1"
    using pos le by (simp add: divide_le_eq_1)
qed

lemma squared_error_nonneg:
  "0 \<le> sum_list (map (\<lambda>p. (fst p - snd p) ^ 2) (ps :: (real \<times> real) list)) / real n"
proof -
  have "0 \<le> sum_list (map (\<lambda>p. (fst p - snd p) ^ 2) ps)"
    by (rule sum_list_nonneg) auto
  then show ?thesis by simp
qed




lemma lower_ECOLE: "lower (CHR 0xC9 # ''COLE'') = CHR 0xE9 # ''cole''"
  by code_simp

section \<open>Results\<close>

subsection \<open>Construction\<close>

text \<open>
  C1 (defaults overridden by the caller's values), evaluated at the example calls of the two
  files' own \<^verbatim>\<open>__main__\<close> blocks, \<^verbatim>\<open>LightGBM(task="classification", n_estimators=200,
  max_depth=5)\<close> and \<^verbatim>\<open>SVMModel(task="classification", C=0.5, kernel="linear")\<close>: each names a
  parameter that \<^verbatim>\<open>__init__\<close> also writes out as a default in the delegate call, so the
  call raises \<^verbatim>\<open>TypeError\<close> before the library is entered, whatever the library is. The
  caller's value does not win; construction fails.
\<close>

theorem construct_override_raises:
  "LightGBM_construct lib (PStr ''classification'')
     [(''n_estimators'', PInt 200), (''max_depth'', PInt 5)] = Inl TypeError
   \<and> SVMModel_construct lib (PStr ''classification'')
     [(''C'', PFloat 0.5), (''kernel'', PStr ''linear'')] = Inl TypeError"
proof -
  have l: "call_kw (new_estimator lib LGBMClassifier) lgbm_defaults
             [(''n_estimators'', PInt 200), (''max_depth'', PInt 5)] = Inl TypeError"
    by (rule call_kw_clash) (simp add: keys_def lgbm_defaults_def)
  have s: "call_kw (new_estimator lib SVC) svc_defaults
             [(''C'', PFloat 0.5), (''kernel'', PStr ''linear'')] = Inl TypeError"
    by (rule call_kw_clash) (simp add: keys_def svc_defaults_def)
  have "LightGBM_construct lib (PStr ''classification'')
          [(''n_estimators'', PInt 200), (''max_depth'', PInt 5)] = Inl TypeError"
    unfolding LightGBM_construct_def LightGBM_init_str lower_classification l by simp
  moreover have "SVMModel_construct lib (PStr ''classification'')
          [(''C'', PFloat 0.5), (''kernel'', PStr ''linear'')] = Inl TypeError"
    unfolding SVMModel_construct_def SVMModel_init_str lower_classification s by simp
  ultimately show ?thesis by (rule conjI)
qed

text \<open>
  C3 as stated fails: a task value that is not literally one of the two recognized strings
  can still be accepted, because \<^verbatim>\<open>__init__\<close> compares \<^verbatim>\<open>task.lower()\<close>. With the stand-in
  library, \<^verbatim>\<open>LightGBM(task="Classification")\<close> returns a classification adapter.
\<close>

theorem construct_mixed_case_counterexample:
  "PStr ''Classification'' \<noteq> PStr ''classification''
   \<and> PStr ''Classification'' \<noteq> PStr ''regression''
   \<and> LightGBM_construct recording_library (PStr ''Classification'') []
       = Inr \<lparr>task = PStr ''classification'', params = [],
              model = Some \<lparr>rec_kind = LGBMClassifier, rec_config = lgbm_defaults,
                            rec_fitted = None\<rparr>\<rparr>"
  by (simp add: LightGBM_construct_def LightGBM_init_str lower_Classification call_kw_empty
      blank_def recording_library_def)

text \<open>
  C3, amended: for every task string whose lowercase form is neither
  \<^verbatim>\<open>"classification"\<close> nor \<^verbatim>\<open>"regression"\<close>, and every keyword mapping, construction in
  both classes raises \<^verbatim>\<open>ValueError\<close> and the caller receives no adapter.
\<close>

theorem construct_invalid_task:
  assumes "lower s \<noteq> ''classification''" and "lower s \<noteq> ''regression''"
  shows "LightGBM_construct lib (PStr s) kw = Inl ValueError
       \<and> SVMModel_construct lib (PStr s) kw = Inl ValueError"
  using assms
  by (simp add: LightGBM_construct_def SVMModel_construct_def LightGBM_init_invalid
      SVMModel_init_invalid)

theorem construct_invalid_task_witness:
  "lower ''invalid'' \<noteq> ''classification'' \<and> lower ''invalid'' \<noteq> ''regression''
   \<and> LightGBM_construct recording_library (PStr ''invalid'') [] = Inl ValueError
   \<and> SVMModel_construct recording_library (PStr ''invalid'') [] = Inl ValueError"
proof -
  have h1: "lower ''invalid'' \<noteq> ''classification''" by (simp add: lower_invalid)
  have h2: "lower ''invalid'' \<noteq> ''regression''" by (simp add: lower_invalid)
  show ?thesis
    using h1 h2 construct_invalid_task [OF h1 h2, of recording_library "[]"] by simp
qed

subsection \<open>Probability estimates\<close>




text \<open>
  C5: after \<^verbatim>\<open>set_params(task="regression")\<close> the next \<^verbatim>\<open>predict_proba\<close> call on the object
  raises \<^verbatim>\<open>AttributeError\<close>. This holds for every adapter the call is made on, so in
  particular for one constructed with \<^verbatim>\<open>task="classification"\<close>, and whether or not the
  rebuild of the delegate inside \<^verbatim>\<open>set_params\<close> succeeds: the task is stored first.
\<close>

theorem set_params_regression_predict_proba:
  "LightGBM_predict_proba lib
     (snd (LightGBM_set_params lib [(''task'', PStr ''regression'')] a)) X = Inl AttributeError
   \<and> SVMModel_predict_proba lib
     (snd (SVMModel_set_params lib [(''task'', PStr ''regression'')] b)) X = Inl AttributeError"
proof -
  have "task (snd (LightGBM_set_params lib [(''task'', PStr ''regression'')] a))
          = PStr ''regression''"
    by (simp add: LightGBM_set_params_def LightGBM_init_task lower_regression)
  moreover have "task (snd (SVMModel_set_params lib [(''task'', PStr ''regression'')] b))
          = PStr ''regression''"
    by (simp add: SVMModel_set_params_def SVMModel_init_task lower_regression)
  ultimately show ?thesis
    by (simp add: LightGBM_predict_proba_def SVMModel_predict_proba_def)
qed

subsection \<open>Reading and replacing parameters\<close>

text \<open>
  C6: if construction from a task and a keyword mapping (distinct names, none of them
  \<^verbatim>\<open>task\<close>, as Python guarantees for \<^verbatim>\<open>**\<close>) returns an adapter, then construction from that
  adapter's \<^verbatim>\<open>get_params()\<close> mapping also returns an adapter, and the two have the same
  \<^verbatim>\<open>get_params()\<close> output.
\<close>

theorem get_params_roundtrip:
  assumes "distinct (keys kw)" and "''task'' \<notin> set (keys kw)"
  shows "(LightGBM_construct lib tsk kw = Inr a \<longrightarrow>
           (\<exists>a'. LightGBM_construct_kw lib (LightGBM_get_params a) = Inr a'
                \<and> LightGBM_get_params a' = LightGBM_get_params a))
       \<and> (SVMModel_construct lib tsk kw = Inr b \<longrightarrow>
           (\<exists>b'. SVMModel_construct_kw lib (SVMModel_get_params b) = Inr b'
                \<and> SVMModel_get_params b' = SVMModel_get_params b))"
proof (intro conjI impI)
  assume c: "LightGBM_construct lib tsk kw = Inr a"
  then have i: "LightGBM_init lib tsk kw blank = (None, a)"
    by (rule construct_Inr_LightGBM)
  from LightGBM_init_ok [OF i] obtain t m where
    t: "task_lower tsk = Inr t" and tv: "t = ''classification'' \<or> t = ''regression''"
    and a: "a = blank\<lparr>task := PStr t, params := kw, model := Some m\<rparr>"
    by blast
  have lt: "lower t = t" using tv lower_classification lower_regression by auto
  have gp: "LightGBM_get_params a = (''task'', PStr t) # kw"
    using assms a by (simp add: LightGBM_get_params_def dict_display_fresh)
  have "LightGBM_construct_kw lib (LightGBM_get_params a) = LightGBM_construct lib (PStr t) kw"
    using assms(2) by (simp add: gp LightGBM_construct_kw_def filter_no_task)
  also have "\<dots> = LightGBM_construct lib tsk kw"
    by (simp add: LightGBM_construct_def LightGBM_init_lowered [OF t lt])
  finally have "LightGBM_construct_kw lib (LightGBM_get_params a) = Inr a"
    using c by simp
  then show "\<exists>a'. LightGBM_construct_kw lib (LightGBM_get_params a) = Inr a'
                \<and> LightGBM_get_params a' = LightGBM_get_params a"
    by simp
next
  assume c: "SVMModel_construct lib tsk kw = Inr b"
  then have i: "SVMModel_init lib tsk kw blank = (None, b)"
    by (rule construct_Inr_SVMModel)
  from SVMModel_init_ok [OF i] obtain t m where
    t: "task_lower tsk = Inr t" and tv: "t = ''classification'' \<or> t = ''regression''"
    and b: "b = blank\<lparr>task := PStr t, params := kw, model := Some m\<rparr>"
    by blast
  have lt: "lower t = t" using tv lower_classification lower_regression by auto
  have gp: "SVMModel_get_params b = (''task'', PStr t) # kw"
    using assms b by (simp add: SVMModel_get_params_def dict_display_fresh)
  have "SVMModel_construct_kw lib (SVMModel_get_params b) = SVMModel_construct lib (PStr t) kw"
    using assms(2) by (simp add: gp SVMModel_construct_kw_def filter_no_task)
  also have "\<dots> = SVMModel_construct lib tsk kw"
    by (simp add: SVMModel_construct_def SVMModel_init_lowered [OF t lt])
  finally have "SVMModel_construct_kw lib (SVMModel_get_params b) = Inr b"
    using c by simp
  then show "\<exists>b'. SVMModel_construct_kw lib (SVMModel_get_params b) = Inr b'
                \<and> SVMModel_get_params b' = SVMModel_get_params b"
    by simp
qed

theorem get_params_roundtrip_witness:
  "(\<exists>a'. LightGBM_construct_kw recording_library
            (LightGBM_get_params
               \<lparr>task = PStr ''regression'', params = [(''min_child_samples'', PInt 5)],
                model = Some \<lparr>rec_kind = LGBMRegressor,
                              rec_config = lgbm_defaults @ [(''min_child_samples'', PInt 5)],
                              rec_fitted = None\<rparr>\<rparr>) = Inr a'
         \<and> LightGBM_get_params a'
             = [(''task'', PStr ''regression''), (''min_child_samples'', PInt 5)])
   \<and> (\<exists>b'. SVMModel_construct_kw recording_library
            (SVMModel_get_params
               \<lparr>task = PStr ''regression'', params = [(''min_child_samples'', PInt 5)],
                model = Some \<lparr>rec_kind = SVR,
                              rec_config = svr_defaults @ [(''min_child_samples'', PInt 5)],
                              rec_fitted = None\<rparr>\<rparr>) = Inr b'
         \<and> SVMModel_get_params b'
             = [(''task'', PStr ''regression''), (''min_child_samples'', PInt 5)])"
proof -
  let ?kw = "[(''min_child_samples'', PInt 5)]"
  let ?a = "\<lparr>task = PStr ''regression'', params = ?kw,
             model = Some \<lparr>rec_kind = LGBMRegressor, rec_config = lgbm_defaults @ ?kw,
                           rec_fitted = None\<rparr>\<rparr>"
  let ?b = "\<lparr>task = PStr ''regression'', params = ?kw,
             model = Some \<lparr>rec_kind = SVR, rec_config = svr_defaults @ ?kw,
                           rec_fitted = None\<rparr>\<rparr>"
  have d: "distinct (keys ?kw)" and n: "''task'' \<notin> set (keys ?kw)"
    by (simp_all add: keys_def)
  have fresh_l: "\<not> list_ex (\<lambda>k. k \<in> set (keys lgbm_defaults)) (keys ?kw)"
    by (simp add: keys_def lgbm_defaults_def)
  have fresh_s: "\<not> list_ex (\<lambda>k. k \<in> set (keys svr_defaults)) (keys ?kw)"
    by (simp add: keys_def svr_defaults_def)
  have ca: "LightGBM_construct recording_library (PStr ''Regression'') ?kw = Inr ?a"
    using fresh_l
    by (simp add: LightGBM_construct_def LightGBM_init_str lower_Regression call_kw_def
        blank_def recording_library_def)
  have cb: "SVMModel_construct recording_library (PStr ''Regression'') ?kw = Inr ?b"
    using fresh_s
    by (simp add: SVMModel_construct_def SVMModel_init_str lower_Regression call_kw_def
        blank_def recording_library_def)
  have ga: "LightGBM_get_params ?a = [(''task'', PStr ''regression''), (''min_child_samples'', PInt 5)]"
    by (simp add: LightGBM_get_params_def dict_display_def)
  have gb: "SVMModel_get_params ?b = [(''task'', PStr ''regression''), (''min_child_samples'', PInt 5)]"
    by (simp add: SVMModel_get_params_def dict_display_def)
  show ?thesis
    using get_params_roundtrip [OF d n, of recording_library "PStr ''Regression''" ?a ?b]
      ca cb ga gb
    by simp
qed



text \<open>
  C10 as stated fails in its second part: \<^verbatim>\<open>set_params\<close> stores the rejected value, but
  \<^verbatim>\<open>__init__\<close> then overwrites \<^verbatim>\<open>self.task\<close> with its lowercase form before it raises. After
  \<^verbatim>\<open>set_params(task="INVALID")\<close> the field holds \<^verbatim>\<open>"invalid"\<close>.
\<close>

theorem set_params_invalid_task_counterexample:
  "fst (LightGBM_set_params recording_library [(''task'', PStr ''INVALID'')]
      \<lparr>task = PStr ''classification'', params = [],
       model = Some \<lparr>rec_kind = LGBMClassifier, rec_config = lgbm_defaults,
                     rec_fitted = None\<rparr>\<rparr>) = Some ValueError
   \<and> task (snd (LightGBM_set_params recording_library [(''task'', PStr ''INVALID'')]
      \<lparr>task = PStr ''classification'', params = [],
       model = Some \<lparr>rec_kind = LGBMClassifier, rec_config = lgbm_defaults,
                     rec_fitted = None\<rparr>\<rparr>)) = PStr ''invalid''
   \<and> PStr ''invalid'' \<noteq> PStr ''INVALID''"
  by (simp add: LightGBM_set_params_def LightGBM_init_str lower_INVALID)

text \<open>
  C10, amended: for a \<^verbatim>\<open>set_params\<close> call whose keywords (distinct names) map \<^verbatim>\<open>task\<close> to a
  string whose lowercase form is neither \<^verbatim>\<open>"classification"\<close> nor \<^verbatim>\<open>"regression"\<close>, the
  call raises \<^verbatim>\<open>ValueError\<close>, as construction with that task does; afterwards the task field
  holds the lowercase form of the rejected value and the delegate is the one from before
  the call.
\<close>

theorem set_params_invalid_task:
  assumes "distinct (keys ps)" and "map_of ps ''task'' = Some (PStr s)"
    and "lower s \<noteq> ''classification''" and "lower s \<noteq> ''regression''"
  shows "fst (LightGBM_set_params lib ps a) = Some ValueError
       \<and> task (snd (LightGBM_set_params lib ps a)) = PStr (lower s)
       \<and> model (snd (LightGBM_set_params lib ps a)) = model a
       \<and> LightGBM_construct lib (PStr s) kw = Inl ValueError
       \<and> fst (SVMModel_set_params lib ps b) = Some ValueError
       \<and> task (snd (SVMModel_set_params lib ps b)) = PStr (lower s)
       \<and> model (snd (SVMModel_set_params lib ps b)) = model b
       \<and> SVMModel_construct lib (PStr s) kw = Inl ValueError"
proof -
  have ta: "task (set_params_loop ps a) = PStr s"
    using assms(1,2) by (rule loop_task_present)
  have tb: "task (set_params_loop ps b) = PStr s"
    using assms(1,2) by (rule loop_task_present)
  have la: "LightGBM_set_params lib ps a =
     (Some ValueError,
      (set_params_loop ps a)\<lparr>task := PStr (lower s), params := params (set_params_loop ps a)\<rparr>)"
    using assms(3,4) by (simp add: LightGBM_set_params_def Let_def ta LightGBM_init_invalid)
  have lb: "SVMModel_set_params lib ps b =
     (Some ValueError,
      (set_params_loop ps b)\<lparr>task := PStr (lower s), params := params (set_params_loop ps b)\<rparr>)"
    using assms(3,4) by (simp add: SVMModel_set_params_def Let_def tb SVMModel_init_invalid)
  show ?thesis
    using assms(3,4)
    by (simp add: la lb loop_model LightGBM_construct_def SVMModel_construct_def
        LightGBM_init_invalid SVMModel_init_invalid)
qed

theorem set_params_invalid_task_witness:
  "fst (SVMModel_set_params recording_library
          [(''C'', PFloat 2), (''task'', PStr (CHR 0xC9 # ''COLE''))]
      \<lparr>task = PStr ''classification'', params = [],
       model = Some \<lparr>rec_kind = SVC, rec_config = svc_defaults, rec_fitted = None\<rparr>\<rparr>)
     = Some ValueError
   \<and> task (snd (SVMModel_set_params recording_library
                  [(''C'', PFloat 2), (''task'', PStr (CHR 0xC9 # ''COLE''))]
      \<lparr>task = PStr ''classification'', params = [],
       model = Some \<lparr>rec_kind = SVC, rec_config = svc_defaults, rec_fitted = None\<rparr>\<rparr>))
     = PStr (CHR 0xE9 # ''cole'')
   \<and> model (snd (SVMModel_set_params recording_library
                  [(''C'', PFloat 2), (''task'', PStr (CHR 0xC9 # ''COLE''))]
      \<lparr>task = PStr ''classification'', params = [],
       model = Some \<lparr>rec_kind = SVC, rec_config = svc_defaults, rec_fitted = None\<rparr>\<rparr>))
     = Some \<lparr>rec_kind = SVC, rec_config = svc_defaults, rec_fitted = None\<rparr>"
proof -
  let ?ps = "[(''C'', PFloat 2), (''task'', PStr (CHR 0xC9 # ''COLE''))]"
  have h1: "distinct (keys ?ps)" by (simp add: keys_def)
  have h2: "map_of ?ps ''task'' = Some (PStr (CHR 0xC9 # ''COLE''))" by simp
  have h3: "lower (CHR 0xC9 # ''COLE'') \<noteq> ''classification''" by (simp add: lower_ECOLE)
  have h4: "lower (CHR 0xC9 # ''COLE'') \<noteq> ''regression''" by (simp add: lower_ECOLE)
  show ?thesis
    using set_params_invalid_task [OF h1 h2 h3 h4, of recording_library]
    by (simp add: lower_ECOLE)
qed

subsection \<open>Training\<close>

text \<open>
  C2 as stated fails twice. In \<^verbatim>\<open>LightGBM.fit\<close> the test is truthiness, so with an evaluation
  set and \<^verbatim>\<open>early_stopping_rounds=0\<close> both supplied the delegate gets a plain fit. And
  \<^verbatim>\<open>SVMModel.fit\<close> has no such parameters: a call that supplies them raises \<^verbatim>\<open>TypeError\<close>.
\<close>

theorem fit_passthrough_counterexample:
  "LightGBM_fit recording_library
      \<lparr>task = PStr ''classification'', params = [],
       model = Some \<lparr>rec_kind = LGBMClassifier, rec_config = lgbm_defaults, rec_fitted = None\<rparr>\<rparr>
      [1, 2] [0, 1] (Some [([3], [1])]) (Some 0)
    = Inr \<lparr>task = PStr ''classification'', params = [],
           model = Some \<lparr>rec_kind = LGBMClassifier, rec_config = lgbm_defaults,
                         rec_fitted = Some ([1, 2], [0, 1], None)\<rparr>\<rparr>
   \<and> SVMModel_fit_call recording_library
      \<lparr>task = PStr ''classification'', params = [],
       model = Some \<lparr>rec_kind = SVC, rec_config = svc_defaults, rec_fitted = None\<rparr>\<rparr>
      [1, 2] [0, 1] [''eval_set'', ''early_stopping_rounds''] = Inl TypeError"
  by (simp add: LightGBM_fit_def SVMModel_fit_call_def recording_library_def)

text \<open>
  C2, amended: for an adapter holding a delegate, \<^verbatim>\<open>LightGBM.fit\<close> passes \<^verbatim>\<open>eval_set\<close> and
  \<^verbatim>\<open>early_stopping_rounds\<close> (with \<^verbatim>\<open>verbose=False\<close>) to the delegate's \<^verbatim>\<open>fit\<close> when both are
  supplied and truthy, that is a non-empty evaluation set and a non-zero number of rounds;
  when either is missing, empty or zero it performs a plain delegate fit with only X and
  y. \<^verbatim>\<open>SVMModel.fit\<close> takes only X and y and always performs a plain delegate fit. In each
  case the outcome is the delegate's: its exception, or the object with the fitted delegate.
\<close>

theorem fit_early_stopping:
  assumes "model a = Some m"
  shows "(es \<noteq> [] \<and> r \<noteq> 0 \<longrightarrow>
            LightGBM_fit lib a X y (Some es) (Some r)
              = map_sum id (\<lambda>m'. a\<lparr>model := Some m'\<rparr>) (est_fit lib m X y (Some (es, r, False))))
       \<and> (es = [] \<or> r = 0 \<longrightarrow>
            LightGBM_fit lib a X y (Some es) (Some r)
              = map_sum id (\<lambda>m'. a\<lparr>model := Some m'\<rparr>) (est_fit lib m X y None))
       \<and> LightGBM_fit lib a X y None rounds
              = map_sum id (\<lambda>m'. a\<lparr>model := Some m'\<rparr>) (est_fit lib m X y None)
       \<and> LightGBM_fit lib a X y eval_set None
              = map_sum id (\<lambda>m'. a\<lparr>model := Some m'\<rparr>) (est_fit lib m X y None)
       \<and> SVMModel_fit lib a X y
              = map_sum id (\<lambda>m'. a\<lparr>model := Some m'\<rparr>) (est_fit lib m X y None)"
proof (intro conjI impI)
  assume "es \<noteq> [] \<and> r \<noteq> 0"
  then show "LightGBM_fit lib a X y (Some es) (Some r)
      = map_sum id (\<lambda>m'. a\<lparr>model := Some m'\<rparr>) (est_fit lib m X y (Some (es, r, False)))"
    using assms by (simp add: LightGBM_fit_def map_sum_id_case)
next
  assume "es = [] \<or> r = 0"
  then show "LightGBM_fit lib a X y (Some es) (Some r)
      = map_sum id (\<lambda>m'. a\<lparr>model := Some m'\<rparr>) (est_fit lib m X y None)"
    using assms by (auto simp add: LightGBM_fit_def map_sum_id_case)
next
  show "LightGBM_fit lib a X y None rounds
      = map_sum id (\<lambda>m'. a\<lparr>model := Some m'\<rparr>) (est_fit lib m X y None)"
    using assms by (simp add: LightGBM_fit_def map_sum_id_case)
next
  show "LightGBM_fit lib a X y eval_set None
      = map_sum id (\<lambda>m'. a\<lparr>model := Some m'\<rparr>) (est_fit lib m X y None)"
    using assms by (cases eval_set) (simp_all add: LightGBM_fit_def map_sum_id_case)
next
  show "SVMModel_fit lib a X y
      = map_sum id (\<lambda>m'. a\<lparr>model := Some m'\<rparr>) (est_fit lib m X y None)"
    using assms by (simp add: SVMModel_fit_def map_sum_id_case)
qed

theorem fit_early_stopping_witness:
  "LightGBM_fit recording_library
      \<lparr>task = PStr ''classification'', params = [],
       model = Some \<lparr>rec_kind = LGBMClassifier, rec_config = lgbm_defaults, rec_fitted = None\<rparr>\<rparr>
      [1, 2] [0, 1] (Some [([3], [1])]) (Some 10)
    = Inr \<lparr>task = PStr ''classification'', params = [],
           model = Some \<lparr>rec_kind = LGBMClassifier, rec_config = lgbm_defaults,
                         rec_fitted = Some ([1, 2], [0, 1], Some ([([3], [1])], 10, False))\<rparr>\<rparr>"
proof -
  let ?m = "\<lparr>rec_kind = LGBMClassifier, rec_config = lgbm_defaults, rec_fitted = None\<rparr>"
  let ?a = "\<lparr>task = PStr ''classification'', params = [], model = Some ?m\<rparr>"
  have h: "model ?a = Some ?m" by simp
  have "[([3::real], [1::real])] \<noteq> [] \<and> (10::int) \<noteq> 0" by simp
  then show ?thesis
    using fit_early_stopping [OF h, of "[([3], [1])]" 10 recording_library "[1, 2]" "[0, 1]"]
    by (simp add: recording_library_def)
qed

subsection \<open>Evaluation\<close>

text \<open>
  C7: on a classification adapter whose delegate predicts one value per label of a
  non-empty test set, \<^verbatim>\<open>evaluate\<close> of either class returns the accuracy of the predictions
  against the labels, and that value lies between 0 and 1.
\<close>

theorem evaluate_classification_accuracy:
  assumes "task a = PStr ''classification''" and "model a = Some m"
    and "est_predict lib m X = Inr y_pred" and "length y_pred = length y" and "y \<noteq> []"
  shows "\<exists>acc. accuracy_score y y_pred = Inr acc
             \<and> LightGBM_evaluate lib a X y = Inr (Some acc)
             \<and> SVMModel_evaluate lib a X y = Inr (Some acc)
             \<and> 0 \<le> acc \<and> acc \<le> 1"
proof -
  let ?acc = "real (length (filter (\<lambda>p. fst p = snd p) (zip y y_pred))) / real (length y)"
  have sc: "accuracy_score y y_pred = Inr ?acc"
    using assms(4,5) by (simp add: accuracy_score_def)
  have "LightGBM_evaluate lib a X y = Inr (Some ?acc)"
    using assms(1,2,3) by (simp add: LightGBM_evaluate_def LightGBM_predict_def sc)
  moreover have "SVMModel_evaluate lib a X y = Inr (Some ?acc)"
    using assms(1,2,3) by (simp add: SVMModel_evaluate_def SVMModel_predict_def sc)
  moreover have "0 \<le> ?acc" and "?acc \<le> 1"
    using accuracy_fraction_bounds [OF assms(4,5)] by blast+
  ultimately show ?thesis using sc by blast
qed

theorem evaluate_classification_accuracy_witness:
  "LightGBM_evaluate recording_library
      \<lparr>task = PStr ''classification'', params = [],
       model = Some \<lparr>rec_kind = LGBMClassifier, rec_config = lgbm_defaults, rec_fitted = None\<rparr>\<rparr>
      [1, 0, 1, 1] [1, 1, 1, 0] = Inr (Some (1 / 2))"
proof -
  let ?m = "\<lparr>rec_kind = LGBMClassifier, rec_config = lgbm_defaults, rec_fitted = None\<rparr>"
  let ?a = "\<lparr>task = PStr ''classification'', params = [], model = Some ?m\<rparr>"
  have h1: "task ?a = PStr ''classification''" and h2: "model ?a = Some ?m"
    by simp_all
  have h3: "est_predict recording_library ?m [1, 0, 1, 1] = Inr [1, 0, 1, 1]"
    by (simp add: recording_library_def)
  have h4: "length [1, 0, 1, 1 :: real] = length [1, 1, 1, 0 :: real]" by simp
  have h5: "[1, 1, 1, 0 :: real] \<noteq> []" by simp
  have sc: "accuracy_score [1, 1, 1, 0] [1, 0, 1, 1] = Inr (1 / 2)"
    by (simp add: accuracy_score_def)
  show ?thesis
    using evaluate_classification_accuracy [OF h1 h2 h3 h4 h5] sc by auto
qed

text \<open>
  C8: on a regression adapter whose delegate predicts one value per label of a non-empty
  test set, \<^verbatim>\<open>evaluate\<close> of either class returns the mean squared error of the predictions
  against the labels, and that value is not negative.
\<close>

theorem evaluate_regression_mse:
  assumes "task a = PStr ''regression''" and "model a = Some m"
    and "est_predict lib m X = Inr y_pred" and "length y_pred = length y" and "y \<noteq> []"
  shows "\<exists>mse. mean_squared_error y y_pred = Inr mse
             \<and> LightGBM_evaluate lib a X y = Inr (Some mse)
             \<and> SVMModel_evaluate lib a X y = Inr (Some mse)
             \<and> 0 \<le> mse"
proof -
  let ?mse = "sum_list (map (\<lambda>p. (fst p - snd p) ^ 2) (zip y y_pred)) / real (length y)"
  have sc: "mean_squared_error y y_pred = Inr ?mse"
    using assms(4,5) by (simp add: mean_squared_error_def)
  have "LightGBM_evaluate lib a X y = Inr (Some ?mse)"
    using assms(1,2,3) by (simp add: LightGBM_evaluate_def LightGBM_predict_def sc)
  moreover have "SVMModel_evaluate lib a X y = Inr (Some ?mse)"
    using assms(1,2,3) by (simp add: SVMModel_evaluate_def SVMModel_predict_def sc)
  moreover have "0 \<le> ?mse"
    by (rule squared_error_nonneg)
  ultimately show ?thesis using sc by blast
qed

theorem evaluate_regression_mse_witness:
  "SVMModel_evaluate recording_library
      \<lparr>task = PStr ''regression'', params = [],
       model = Some \<lparr>rec_kind = SVR, rec_config = svr_defaults, rec_fitted = None\<rparr>\<rparr>
      [1, 2, 3] [1, 4, 2] = Inr (Some (5 / 3))"
proof -
  let ?m = "\<lparr>rec_kind = SVR, rec_config = svr_defaults, rec_fitted = None\<rparr>"
  let ?a = "\<lparr>task = PStr ''regression'', params = [], model = Some ?m\<rparr>"
  have h1: "task ?a = PStr ''regression''" and h2: "model ?a = Some ?m"
    by simp_all
  have h3: "est_predict recording_library ?m [1, 2, 3] = Inr [1, 2, 3]"
    by (simp add: recording_library_def)
  have h4: "length [1, 2, 3 :: real] = length [1, 4, 2 :: real]" by simp
  have h5: "[1, 4, 2 :: real] \<noteq> []" by simp
  have sc: "mean_squared_error [1, 4, 2] [1, 2, 3] = Inr (5 / 3)"
    by (simp add: mean_squared_error_def)
  show ?thesis
    using evaluate_regression_mse [OF h1 h2 h3 h4 h5] sc by auto
qed

end
